theory Spec2Isabelle
  imports Main "HOL-Library.Sublist"
begin

section \<open>Python strings and JSON answer values\<close>

text \<open>
  A Python \<open>str\<close> is modelled as a \<open>string\<close> whose characters are the code points
  below 256. On that range \<open>str.lower\<close> moves the letters A-Z and the Latin-1 capitals
  (0xC0-0xDE without the multiplication sign 0xD7) up by 32 and leaves every other code
  point alone; \<open>str.isspace\<close> holds of 0x09-0x0D, 0x1C-0x20, 0x85 and 0xA0.
  Code points from 256 on are outside the model.
\<close>

definition lower_char :: "char \<Rightarrow> char" where
  "lower_char c =
     (let n = (of_char c :: nat)
      in if (65 \<le> n \<and> n \<le> 90) \<or> (192 \<le> n \<and> n \<le> 222 \<and> n \<noteq> 215)
         then char_of (n + 32) else c)"

definition lower :: "string \<Rightarrow> string" where
  "lower s = map lower_char s"

definition isspace :: "char \<Rightarrow> bool" where
  "isspace c =
     (let n = (of_char c :: nat)
      in (9 \<le> n \<and> n \<le> 13) \<or> (28 \<le> n \<and> n \<le> 32) \<or> n = 133 \<or> n = 160)"

definition strip :: "string \<Rightarrow> string" where
  "strip s = rev (dropWhile isspace (rev (dropWhile isspace s)))"

text \<open>\<open>sep.join(parts)\<close>.\<close>

fun join :: "string \<Rightarrow> string list \<Rightarrow> string" where
  "join sep [] = []"
| "join sep [x] = x"
| "join sep (x # y # ys) = x @ sep @ join sep (y # ys)"

text \<open>
  The value of a JSON field of a request: absent or \<open>null\<close> (\<open>None\<close>), a boolean, an
  integer, a string, or a list of strings (the selected options of a multiselect
  question). Floats and nested containers are outside the model.
\<close>

datatype answer = ANone | ABool bool | ANum int | AStr string | AList "string list"

text \<open>Python truthiness, as tested by \<open>if answer\<close> and \<open>not msg\<close>.\<close>

fun truthy :: "answer \<Rightarrow> bool" where
  "truthy ANone = False"
| "truthy (ABool b) = b"
| "truthy (ANum n) = (n \<noteq> 0)"
| "truthy (AStr s) = (s \<noteq> [])"
| "truthy (AList xs) = (xs \<noteq> [])"

fun digits :: "nat \<Rightarrow> string" where
  "digits n =
     (if n < 10 then [char_of (48 + n)]
      else digits (n div 10) @ [char_of (48 + n mod 10)])"

declare digits.simps [simp del]

definition str_int :: "int \<Rightarrow> string" where
  "str_int i = (if i < 0 then CHR ''-'' # digits (nat (- i)) else digits (nat i))"

text \<open>\<open>repr\<close> of a string, which \<open>str\<close> of a list applies to each element.\<close>

definition repr_quote :: "string \<Rightarrow> char" where
  "repr_quote s = (if CHR 0x27 \<in> set s \<and> CHR 0x22 \<notin> set s then CHR 0x22 else CHR 0x27)"

definition hex_digit :: "nat \<Rightarrow> char" where
  "hex_digit n = (if n < 10 then char_of (48 + n) else char_of (87 + n))"

definition repr_char :: "char \<Rightarrow> char \<Rightarrow> string" where
  "repr_char q c =
     (let n = (of_char c :: nat)
      in if c = q \<or> n = 92 then [CHR 0x5C, c]
         else if n = 9 then [CHR 0x5C, CHR ''t'']
         else if n = 10 then [CHR 0x5C, CHR ''n'']
         else if n = 13 then [CHR 0x5C, CHR ''r'']
         else if n < 32 \<or> n = 127 \<or> (128 \<le> n \<and> n \<le> 160) \<or> n = 173
           then [CHR 0x5C, CHR ''x'', hex_digit (n div 16), hex_digit (n mod 16)]
         else [c])"

definition repr_str :: "string \<Rightarrow> string" where
  "repr_str s = (let q = repr_quote s in q # concat (map (repr_char q) s) @ [q])"

text \<open>\<open>str(answer)\<close>, also what an f-string inserts for \<open>{answer}\<close>.\<close>

fun py_str :: "answer \<Rightarrow> string" where
  "py_str ANone = ''None''"
| "py_str (ABool b) = (if b then ''True'' else ''False'')"
| "py_str (ANum n) = str_int n"
| "py_str (AStr s) = s"
| "py_str (AList xs) = ''['' @ join '', '' (map repr_str xs) @ '']''"

section \<open>Emergency screener of the symptom-checker application\<close>

text \<open>
  \<open>full_symptom_checker_app.py\<close>: the table \<open>EMERGENCY_SYMPTOMS\<close> with its two tiers
  and \<open>check_emergency\<close>. The two fixed message strings of the table are named by the
  constructors of \<open>tier_message\<close>. Constants of this application carry the prefix
  \<open>fsc\<close> where \<open>app.py\<close> defines a function of the same name.
\<close>

definition call_911_keywords :: "string list" where
  "call_911_keywords =
     [''chest pain'', ''can't breathe'', ''difficulty breathing'', ''cant breathe'',
      ''unconscious'', ''passed out'', ''severe bleeding'', ''bleeding heavily'',
      ''seizure'', ''stroke'', ''heart attack'', ''choking'', ''overdose'',
      ''suicide'', ''kill myself'', ''severe allergic reaction'']"

definition urgent_care_keywords :: "string list" where
  "urgent_care_keywords =
     [''high fever'', ''severe pain'', ''persistent vomiting'', ''vomiting blood'',
      ''blood in stool'', ''severe headache'', ''vision loss'', ''confused'',
      ''severe abdominal pain'', ''deep cut'', ''broken bone'', ''can't walk'']"

datatype level = Critical | Urgent | Routine

datatype tier_message = Call_911_message | Urgent_care_message

record verdict =
  is_emergency :: bool
  level :: level
  message :: "tier_message option"

definition fsc_check_emergency :: "string \<Rightarrow> verdict" where
  "fsc_check_emergency text =
     (let text_lower = lower text
      in case find (\<lambda>keyword. sublist keyword text_lower) call_911_keywords of
           Some keyword \<Rightarrow>
             \<lparr>is_emergency = True, level = Critical, message = Some Call_911_message\<rparr>
         | None \<Rightarrow>
             (case find (\<lambda>keyword. sublist keyword text_lower) urgent_care_keywords of
                Some keyword \<Rightarrow>
                  \<lparr>is_emergency = True, level = Urgent, message = Some Urgent_care_message\<rparr>
              | None \<Rightarrow> \<lparr>is_emergency = False, level = Routine, message = None\<rparr>))"

section \<open>Emergency screener of the combined application\<close>

text \<open>\<open>app.py\<close>: one list of keywords; the first one found is returned.\<close>

definition EMERGENCY_KEYWORDS :: "string list" where
  "EMERGENCY_KEYWORDS =
     [''chest pain'', ''heart attack'', ''stroke'', ''can't breathe'', ''cannot breathe'',
      ''difficulty breathing'', ''severe bleeding'', ''unconscious'', ''seizure'',
      ''suicidal'', ''suicide'', ''want to die'', ''overdose'', ''poisoning'',
      ''severe allergic'', ''anaphylaxis'', ''choking'', ''drowning'',
      ''severe head injury'', ''loss of consciousness'', ''paralysis'',
      ''coughing blood'', ''vomiting blood'', ''severe abdominal pain'']"

definition check_emergency :: "string \<Rightarrow> bool \<times> string option" where
  "check_emergency text =
     (let text_lower = lower text
      in case find (\<lambda>keyword. sublist keyword text_lower) EMERGENCY_KEYWORDS of
           Some keyword \<Rightarrow> (True, Some keyword)
         | None \<Rightarrow> (False, None))"

section \<open>Chat history and message validation\<close>

text \<open>
  \<open>app.py\<close> keeps its state in the Flask session, a dictionary with the optional keys
  \<open>messages\<close> (the chat history) and \<open>assessment\<close>. A key that is not in the session is
  \<open>None\<close> here. A stored turn is the dictionary \<open>{'role': .., 'content': ..}\<close>.
\<close>

record turn =
  role :: string
  content :: string

datatype qtype = Text | Choice | Scale | Multiselect | Number

text \<open>
  An entry of the questionnaire; the keys \<open>id\<close>, \<open>question\<close>, \<open>type\<close>, \<open>min\<close> and
  \<open>max\<close> of the source are \<open>qid\<close>, \<open>question_text\<close>, \<open>qtype\<close>, \<open>qmin\<close> and \<open>qmax\<close>.
\<close>

record question =
  qid :: string
  question_text :: string
  qtype :: qtype
  options :: "string list option"
  qmin :: "int option"
  qmax :: "int option"
  placeholder :: "string option"
  required :: bool

record assessment =
  answers :: "string \<rightharpoonup> answer"
  current_question :: nat
  started :: bool

record app_session =
  messages :: "turn list option"
  assessment :: "assessment option"

datatype chat_message = HumanMessage string | AIMessage string

definition get_chat_history :: "app_session \<Rightarrow> app_session \<times> chat_message list" where
  "get_chat_history s =
     (let s = (case messages s of None \<Rightarrow> s\<lparr>messages := Some []\<rparr> | Some m \<Rightarrow> s);
          stored = (case messages s of None \<Rightarrow> [] | Some m \<Rightarrow> m)
      in (s, map (\<lambda>msg. if role msg = ''user'' then HumanMessage (content msg)
                          else AIMessage (content msg)) stored))"

text \<open>The slice \<open>xs[-n:]\<close> for a positive \<open>n\<close>.\<close>

definition last_slice :: "nat \<Rightarrow> 'a list \<Rightarrow> 'a list" where
  "last_slice n xs = drop (length xs - n) xs"

definition update_chat_history :: "app_session \<Rightarrow> string \<Rightarrow> string \<Rightarrow> app_session" where
  "update_chat_history s user_message bot_message =
     (let msgs = (case messages s of None \<Rightarrow> [] | Some m \<Rightarrow> m);
          msgs = msgs @ [\<lparr>role = ''user'', content = user_message\<rparr>];
          msgs = msgs @ [\<lparr>role = ''assistant'', content = bot_message\<rparr>];
          msgs = last_slice 20 msgs
      in s\<lparr>messages := Some msgs\<rparr>)"

definition validate_message :: "string \<Rightarrow> bool \<times> string option" where
  "validate_message msg =
     (if msg = [] then (False, Some ''Message cannot be empty'')
      else if length msg > 1000 then (False, Some ''Message too long (max 1000 characters)'')
      else if length (strip msg) < 2 then (False, Some ''Message too short'')
      else (True, None))"

text \<open>
  The handler \<open>chat\<close> of \<open>POST /get\<close>. The retrieval chain is an external service: the
  parameter \<open>rag_chain\<close> gives its answer for a message and a history, or \<open>None\<close> when
  the call raises. The reply is the HTTP status with the error text, or the answer
  with the length of the stored history (the fixed disclaimer appended to the answer
  is left out).
\<close>

datatype chat_response =
    Chat_error nat "string option"
  | Chat_answer string nat

definition chat ::
  "(string \<Rightarrow> chat_message list \<Rightarrow> string option) \<Rightarrow> app_session \<Rightarrow> string option
     \<Rightarrow> app_session \<times> chat_response" where
  "chat rag_chain s form_msg =
     (let msg = strip (case form_msg of None \<Rightarrow> [] | Some m \<Rightarrow> m);
          (is_valid, error_msg) = validate_message msg
      in if \<not> is_valid then (s, Chat_error 400 error_msg)
         else
           (let (s, chat_history) = get_chat_history s
            in case rag_chain msg chat_history of
                 None \<Rightarrow> (s, Chat_error 500 (Some ''An error occurred processing your request''))
               | Some answer \<Rightarrow>
                   (let s = update_chat_history s msg answer
                    in (s, Chat_answer answer
                             (length (case messages s of None \<Rightarrow> [] | Some m \<Rightarrow> m))))))"

text \<open>A conversation: the exchanges (user message, answer) stored one after the other.\<close>

fun exchanges :: "app_session \<Rightarrow> (string \<times> string) list \<Rightarrow> app_session" where
  "exchanges s [] = s"
| "exchanges s ((user_message, bot_message) # rest) =
     exchanges (update_chat_history s user_message bot_message) rest"

section \<open>Assessment of the combined application\<close>

definition ASSESSMENT_QUESTIONS :: "question list" where
  "ASSESSMENT_QUESTIONS =
     [\<lparr>qid = ''main_symptom'',
       question_text = ''What is your main symptom or health concern?'',
       qtype = Text, options = None, qmin = None, qmax = None, placeholder = None,
       required = True\<rparr>,
      \<lparr>qid = ''duration'',
       question_text = ''When did this symptom start?'',
       qtype = Choice,
       options = Some [''Less than 24 hours ago'', ''1-3 days ago'', ''4-7 days ago'',
                       ''1-4 weeks ago'', ''More than a month ago''],
       qmin = None, qmax = None, placeholder = None, required = True\<rparr>,
      \<lparr>qid = ''severity'',
       question_text = ''On a scale of 1-10, how severe is this symptom?'',
       qtype = Scale, options = None, qmin = Some 1, qmax = Some 10, placeholder = None,
       required = True\<rparr>,
      \<lparr>qid = ''additional_symptoms'',
       question_text = ''Are you experiencing any of these additional symptoms?'',
       qtype = Multiselect,
       options = Some [''Fever'', ''Fatigue'', ''Nausea'', ''Vomiting'', ''Diarrhea'',
                       ''Headache'', ''Cough'', ''Shortness of breath'', ''Dizziness'',
                       ''Body aches'', ''Loss of appetite''],
       qmin = None, qmax = None, placeholder = None, required = False\<rparr>,
      \<lparr>qid = ''age'',
       question_text = ''What is your age?'',
       qtype = Number, options = None, qmin = None, qmax = None, placeholder = None,
       required = True\<rparr>,
      \<lparr>qid = ''chronic_conditions'',
       question_text = ''Do you have any chronic medical conditions?'',
       qtype = Text, options = None, qmin = None, qmax = None,
       placeholder = Some ''e.g., diabetes, hypertension, asthma (or 'None')'',
       required = False\<rparr>,
      \<lparr>qid = ''medications'',
       question_text = ''Are you currently taking any medications?'',
       qtype = Text, options = None, qmin = None, qmax = None,
       placeholder = Some ''e.g., aspirin, blood pressure medication (or 'None')'',
       required = False\<rparr>]"

text \<open>
  The JSON object of \<open>POST /submit_answer\<close> as the handlers read it with \<open>data.get\<close>:
  \<open>question_id\<close> is \<open>None\<close> and \<open>answer\<close> is \<open>ANone\<close> when the key is missing or
  \<open>null\<close>; \<open>question_id\<close> is a string, as the specification types it.
\<close>

record submit_data =
  question_id :: "string option"
  answer :: answer

text \<open>
  The request body. \<open>Unreadable\<close>: \<open>request.get_json()\<close> raises (no JSON content
  type, or a body that does not parse). \<open>Not_object b\<close>: a JSON value that is not an
  object, \<open>b\<close> its truth value in Python (\<open>null\<close>, \<open>false\<close>, \<open>0\<close>, the empty string
  and the empty list are falsy); a call of \<open>data.get\<close> on it raises. \<open>Empty_object\<close>: the object
  \<open>{}\<close>, which is falsy. \<open>Object d\<close>: an object with at least one key.
\<close>

datatype request_body =
    Unreadable
  | Not_object bool
  | Empty_object
  | Object submit_data

text \<open>
  The replies of the assessment routes: an HTTP error status with its \<open>error\<close> text,
  or one of the \<open>status\<close> values \<open>started\<close> (first question, total), \<open>emergency\<close>
  (the keyword found; the message and the action are fixed texts around it),
  \<open>continue\<close> (next question, \<open>current\<close>, \<open>total\<close>; the float \<open>progress\<close> is left
  out) and \<open>complete\<close> (the answers).
\<close>

datatype response =
    Error_response nat string
  | Started question nat
  | Emergency "string option"
  | Continue question nat nat
  | Complete "string \<rightharpoonup> answer"

definition initial_assessment :: assessment where
  "initial_assessment = \<lparr>answers = Map.empty, current_question = 0, started = True\<rparr>"

definition start_assessment :: "app_session \<Rightarrow> app_session \<times> response" where
  "start_assessment s =
     (s\<lparr>assessment := Some initial_assessment\<rparr>,
      Started (ASSESSMENT_QUESTIONS ! 0) (length ASSESSMENT_QUESTIONS))"

text \<open>
  The handler \<open>submit_answer\<close> of \<open>app.py\<close>. Its body is one \<open>try\<close> block whose
  \<open>except Exception\<close> answers status 500: that is the reply when \<open>get_json\<close>
  raises and when \<open>data.get\<close> raises on a truthy value that is not an object. Both
  happen before the session is touched.
\<close>

definition submit_answer :: "app_session \<Rightarrow> request_body \<Rightarrow> app_session \<times> response" where
  "submit_answer s body =
     (case body of
        Unreadable \<Rightarrow> (s, Error_response 500 ''Failed to submit answer'')
      | Not_object truthy_value \<Rightarrow>
          if \<not> truthy_value then (s, Error_response 400 ''No data provided'')
          else (s, Error_response 500 ''Failed to submit answer'')
      | Empty_object \<Rightarrow> (s, Error_response 400 ''No data provided'')
      | Object data \<Rightarrow>
          (case question_id data of
             None \<Rightarrow> (s, Error_response 400 ''Missing question_id'')
           | Some qn \<Rightarrow>
               if qn = [] then (s, Error_response 400 ''Missing question_id'')
               else
                 (let a = (case assessment s of None \<Rightarrow> initial_assessment | Some a \<Rightarrow> a);
                      s = s\<lparr>assessment := Some a\<rparr>;
                      (is_emergency, keyword) =
                         (if qn = ''main_symptom'' \<and> truthy (answer data)
                          then check_emergency (py_str (answer data)) else (False, None))
                  in if is_emergency then (s, Emergency keyword)
                     else
                         (let a = a\<lparr>answers := (answers a)(qn \<mapsto> answer data),
                                    current_question := current_question a + 1\<rparr>;
                              s = s\<lparr>assessment := Some a\<rparr>;
                              current_idx = current_question a
                          in if current_idx \<ge> length ASSESSMENT_QUESTIONS
                             then (s, Complete (answers a))
                             else (s, Continue (ASSESSMENT_QUESTIONS ! current_idx)
                                        (current_idx + 1) (length ASSESSMENT_QUESTIONS))))))"

text \<open>A run of submissions, each on the session the one before has left.\<close>

fun submit_all :: "app_session \<Rightarrow> submit_data list \<Rightarrow> app_session \<times> response list" where
  "submit_all s [] = (s, [])"
| "submit_all s (d # ds) =
     (let (s1, r) = submit_answer s (Object d);
          (s2, rs) = submit_all s1 ds
      in (s2, r # rs))"

section \<open>Assessment of the symptom-checker application\<close>

text \<open>
  \<open>full_symptom_checker_app.py\<close> keeps the keys \<open>symptom_data\<close>, \<open>current_question\<close>
  and \<open>completed\<close> in the session itself, and stores an answer under whatever
  \<open>data.get('question_id')\<close> returns, \<open>None\<close> included.
\<close>

definition SYMPTOM_QUESTIONS :: "question list" where
  "SYMPTOM_QUESTIONS =
     [\<lparr>qid = ''main_symptom'',
       question_text = ''What is your main symptom or health concern?'',
       qtype = Text, options = None, qmin = None, qmax = None, placeholder = None,
       required = True\<rparr>,
      \<lparr>qid = ''duration'',
       question_text = ''When did this symptom start?'',
       qtype = Choice,
       options = Some [''Less than 24 hours ago'', ''1-3 days ago'', ''4-7 days ago'',
                       ''1-4 weeks ago'', ''More than a month ago''],
       qmin = None, qmax = None, placeholder = None, required = True\<rparr>,
      \<lparr>qid = ''severity'',
       question_text = ''How would you rate the severity? (1=mild, 10=severe)'',
       qtype = Scale, options = None, qmin = Some 1, qmax = Some 10, placeholder = None,
       required = True\<rparr>,
      \<lparr>qid = ''additional_symptoms'',
       question_text = ''Do you have any of these additional symptoms?'',
       qtype = Multiselect,
       options = Some [''Fever'', ''Fatigue'', ''Nausea'', ''Vomiting'', ''Diarrhea'',
                       ''Headache'', ''Cough'', ''Shortness of breath'', ''Dizziness'',
                       ''Body aches'', ''Loss of appetite'', ''None of these''],
       qmin = None, qmax = None, placeholder = None, required = False\<rparr>,
      \<lparr>qid = ''age'',
       question_text = ''What is your age?'',
       qtype = Number, options = None, qmin = None, qmax = None, placeholder = None,
       required = True\<rparr>,
      \<lparr>qid = ''chronic_conditions'',
       question_text =
         ''Do you have any chronic medical conditions? (e.g., diabetes, hypertension)'',
       qtype = Text, options = None, qmin = None, qmax = None, placeholder = None,
       required = False\<rparr>,
      \<lparr>qid = ''medications'',
       question_text = ''Are you currently taking any medications?'',
       qtype = Text, options = None, qmin = None, qmax = None, placeholder = None,
       required = False\<rparr>]"

record fsc_session =
  symptom_data :: "(string option \<rightharpoonup> answer) option"
  fsc_current_question :: "nat option"
  completed :: "bool option"

datatype fsc_response =
    Fsc_started "question option"
  | Fsc_emergency verdict
  | Fsc_continue question
  | Fsc_complete
  | Fsc_server_error
  | Fsc_request_error


definition get_current_question :: "fsc_session \<Rightarrow> question option" where
  "get_current_question s =
     (let question_index = (case fsc_current_question s of None \<Rightarrow> 0 | Some i \<Rightarrow> i)
      in if question_index < length SYMPTOM_QUESTIONS
         then Some (SYMPTOM_QUESTIONS ! question_index) else None)"

definition save_answer :: "fsc_session \<Rightarrow> string option \<Rightarrow> answer \<Rightarrow> fsc_session" where
  "save_answer s qn a =
     (let d = (case symptom_data s of None \<Rightarrow> Map.empty | Some d \<Rightarrow> d)
      in s\<lparr>symptom_data := Some (d(qn \<mapsto> a))\<rparr>)"

definition advance_question :: "fsc_session \<Rightarrow> fsc_session" where
  "advance_question s =
     s\<lparr>fsc_current_question :=
         Some ((case fsc_current_question s of None \<Rightarrow> 0 | Some i \<Rightarrow> i) + 1)\<rparr>"


text \<open>
  \<open>submit_answer\<close> of this application has no \<open>try\<close> block. When \<open>request.json\<close>
  raises, the framework replies with the error status of that exception
  (\<open>Fsc_request_error\<close>); on a value that is not an object \<open>data.get\<close> raises and the
  framework replies with status 500 (\<open>Fsc_server_error\<close>). The object \<open>{}\<close> is read
  like any other object, both keys missing.
\<close>

definition fsc_submit_answer ::
  "fsc_session \<Rightarrow> request_body \<Rightarrow> fsc_session \<times> fsc_response" where
  "fsc_submit_answer s body =
     (case body of
        Unreadable \<Rightarrow> (s, Fsc_request_error)
      | Not_object truthy_value \<Rightarrow> (s, Fsc_server_error)
      | _ \<Rightarrow>
          (let data = (case body of
                         Object d \<Rightarrow> d
                       | _ \<Rightarrow> \<lparr>question_id = None, answer = ANone\<rparr>);
               emergency_check =
                 (case answer data of
                    AStr text \<Rightarrow> fsc_check_emergency text
                  | _ \<Rightarrow> \<lparr>is_emergency = False, level = Routine, message = None\<rparr>)
           in if is_emergency emergency_check then (s, Fsc_emergency emergency_check)
              else
                (let s = save_answer s (question_id data) (answer data);
                     s = advance_question s
                 in case get_current_question s of
                      None \<Rightarrow> (s\<lparr>completed := Some True\<rparr>, Fsc_complete)
                    | Some next_question \<Rightarrow> (s, Fsc_continue next_question))))"

section \<open>Patient summary\<close>

definition format_patient_info :: "(string \<rightharpoonup> answer) \<Rightarrow> string" where
  "format_patient_info ans =
     (let info_parts = [];
          info_parts = (case ans ''age'' of
                          Some v \<Rightarrow> info_parts @ [''Age: '' @ py_str v]
                        | None \<Rightarrow> info_parts);
          info_parts = (case ans ''main_symptom'' of
                          Some v \<Rightarrow> info_parts @ [''Main Symptom: '' @ py_str v]
                        | None \<Rightarrow> info_parts);
          info_parts = (case ans ''duration'' of
                          Some v \<Rightarrow> info_parts @ [''Duration: '' @ py_str v]
                        | None \<Rightarrow> info_parts);
          info_parts = (case ans ''severity'' of
                          Some v \<Rightarrow> info_parts @ [''Severity: '' @ py_str v @ ''/10'']
                        | None \<Rightarrow> info_parts);
          info_parts = (case ans ''additional_symptoms'' of
                          Some symptoms \<Rightarrow>
                            if truthy symptoms
                            then (case symptoms of
                                    AList xs \<Rightarrow>
                                      info_parts @ [''Additional Symptoms: '' @ join '', '' xs]
                                  | _ \<Rightarrow>
                                      info_parts @ [''Additional Symptoms: '' @ py_str symptoms])
                            else info_parts
                        | None \<Rightarrow> info_parts);
          info_parts = (case ans ''chronic_conditions'' of
                          Some v \<Rightarrow> if truthy v
                                    then info_parts @ [''Chronic Conditions: '' @ py_str v]
                                    else info_parts
                        | None \<Rightarrow> info_parts);
          info_parts = (case ans ''medications'' of
                          Some v \<Rightarrow> if truthy v
                                    then info_parts @ [''Current Medications: '' @ py_str v]
                                    else info_parts
                        | None \<Rightarrow> info_parts)
      in join [CHR 0x0A] info_parts)"

section \<open>The patient summary as the specification words it\<close>

text \<open>
  The specification: one line per field in the order age, main symptom, duration,
  severity, additional symptoms, chronic conditions, medications, where a field that
  is absent or empty has no line. \<open>summary_spec\<close> follows these words;
  \<open>summary_lines\<close> is the same list with the test the source applies to each field:
  the key is present for the first four, the key is present and its value is truthy
  for the last three.
\<close>

definition summary_order :: "string list" where
  "summary_order =
     [''age'', ''main_symptom'', ''duration'', ''severity'', ''additional_symptoms'',
      ''chronic_conditions'', ''medications'']"

definition summary_line :: "string \<Rightarrow> answer \<Rightarrow> string" where
  "summary_line k v =
     (if k = ''age'' then ''Age: '' @ py_str v
      else if k = ''main_symptom'' then ''Main Symptom: '' @ py_str v
      else if k = ''duration'' then ''Duration: '' @ py_str v
      else if k = ''severity'' then ''Severity: '' @ py_str v @ ''/10''
      else if k = ''additional_symptoms''
        then ''Additional Symptoms: '' @ (case v of AList xs \<Rightarrow> join '', '' xs | _ \<Rightarrow> py_str v)
      else if k = ''chronic_conditions'' then ''Chronic Conditions: '' @ py_str v
      else ''Current Medications: '' @ py_str v)"

definition is_empty :: "answer \<Rightarrow> bool" where
  "is_empty v = (case v of ANone \<Rightarrow> True | AStr s \<Rightarrow> s = [] | AList xs \<Rightarrow> xs = [] | _ \<Rightarrow> False)"

definition summary_spec :: "(string \<rightharpoonup> answer) \<Rightarrow> string" where
  "summary_spec ans =
     join [CHR 0x0A]
       (concat (map (\<lambda>k. case ans k of
                            None \<Rightarrow> []
                          | Some v \<Rightarrow> if is_empty v then [] else [summary_line k v])
                    summary_order))"

definition optional_field :: "string \<Rightarrow> bool" where
  "optional_field k =
     (k = ''additional_symptoms'' \<or> k = ''chronic_conditions'' \<or> k = ''medications'')"

definition summary_lines :: "(string \<rightharpoonup> answer) \<Rightarrow> string list" where
  "summary_lines ans =
     concat (map (\<lambda>k. case ans k of
                         None \<Rightarrow> []
                       | Some v \<Rightarrow> if optional_field k \<and> \<not> truthy v then []
                                   else [summary_line k v])
                 summary_order)"

section \<open>Reading the chat history\<close>

text \<open>
  The stored history of a session (\<open>session.get('messages', [])\<close>) and the two turns
  that one exchange appends.
\<close>

definition history :: "app_session \<Rightarrow> turn list" where
  "history s = (case messages s of None \<Rightarrow> [] | Some m \<Rightarrow> m)"

definition turns_of :: "string \<times> string \<Rightarrow> turn list" where
  "turns_of x =
     [\<lparr>role = ''user'', content = fst x\<rparr>, \<lparr>role = ''assistant'', content = snd x\<rparr>]"

section \<open>Reading the assessment\<close>

text \<open>
  The test of \<open>submit_answer\<close> (\<open>app.py\<close>) that ends a submission with the emergency
  reply, and what the session holds of the assessment: the cursor and the answer stored
  under a key.
\<close>

definition triggers_emergency :: "submit_data \<Rightarrow> bool" where
  "triggers_emergency d =
     (question_id d = Some ''main_symptom'' \<and> truthy (answer d)
      \<and> fst (check_emergency (py_str (answer d))))"

definition cursor_of :: "app_session \<Rightarrow> nat option" where
  "cursor_of s = (case assessment s of None \<Rightarrow> None | Some a \<Rightarrow> Some (current_question a))"

definition stored :: "app_session \<Rightarrow> string \<Rightarrow> answer option" where
  "stored s k = (case assessment s of None \<Rightarrow> None | Some a \<Rightarrow> answers a k)"

definition fresh_session :: app_session where
  "fresh_session = \<lparr>messages = None, assessment = None\<rparr>"





section \<open>Sample inputs\<close>

text \<open>
  Answer mappings used as concrete inputs: one whose main symptom is the empty string,
  and the example of the specification, \<open>{age: 34, main_symptom: "fever", severity: 6}\<close>.
\<close>

definition empty_symptom_answers :: "string \<rightharpoonup> answer" where
  "empty_symptom_answers = [''main_symptom'' \<mapsto> AStr []]"

definition example_answers :: "string \<rightharpoonup> answer" where
  "example_answers = [''age'' \<mapsto> ANum 34, ''main_symptom'' \<mapsto> AStr ''fever'', ''severity'' \<mapsto> ANum 6]"

section \<open>Facts about strings\<close>

lemma lower_append: "lower (xs @ ys) = lower xs @ lower ys"
  by (simp add: lower_def)

lemma sublist_lower_iff:
  "sublist kw (lower text) \<longleftrightarrow> (\<exists>pre w post. text = pre @ w @ post \<and> lower w = kw)"
proof
  assume "sublist kw (lower text)"
  then obtain ps ss where "map lower_char text = ps @ kw @ ss"
    by (auto simp: sublist_def lower_def)
  then obtain pre rest where t: "text = pre @ rest" and r: "map lower_char rest = kw @ ss"
    by (metis map_eq_append_conv)
  from r obtain w post where "rest = w @ post" and "map lower_char w = kw"
    by (metis map_eq_append_conv)
  with t show "\<exists>pre w post. text = pre @ w @ post \<and> lower w = kw"
    by (auto simp: lower_def)
next
  assume "\<exists>pre w post. text = pre @ w @ post \<and> lower w = kw"
  then show "sublist kw (lower text)"
    by (auto simp: lower_append)
qed

lemma find_is_Some: "x \<in> set xs \<Longrightarrow> P x \<Longrightarrow> \<exists>y. find P xs = Some y"
  by (cases "find P xs") (auto simp: find_None_iff)

lemma space_lower: "isspace c \<Longrightarrow> lower_char c = c"
  by (auto simp: isspace_def lower_char_def Let_def)

lemma keyword_has_nonspace:
  "\<forall>kw \<in> set (call_911_keywords @ urgent_care_keywords). \<exists>c \<in> set kw. \<not> isspace c"
  by code_simp

lemma whitespace_has_no_keyword:
  assumes "\<forall>c \<in> set text. isspace c"
    and "kw \<in> set (call_911_keywords @ urgent_care_keywords)"
  shows "\<not> sublist kw (lower text)"
proof
  assume "sublist kw (lower text)"
  then have "set kw \<subseteq> set (lower text)" by (rule set_mono_sublist)
  moreover have "lower text = text"
    using assms(1) by (simp add: lower_def space_lower map_idI)
  ultimately have "\<forall>c \<in> set kw. isspace c" using assms(1) by auto
  with keyword_has_nonspace assms(2) show False by blast
qed

lemma no_keyword_routine:
  assumes "\<forall>kw \<in> set (call_911_keywords @ urgent_care_keywords). \<not> sublist kw (lower text)"
  shows "fsc_check_emergency text = \<lparr>is_emergency = False, level = Routine, message = None\<rparr>"
proof -
  from assms have "find (\<lambda>keyword. sublist keyword (lower text)) call_911_keywords = None"
    and "find (\<lambda>keyword. sublist keyword (lower text)) urgent_care_keywords = None"
    by (auto simp: find_None_iff)
  then show ?thesis by (simp add: fsc_check_emergency_def)
qed

section \<open>The emergency screener\<close>

text \<open>
  Claim C1. Whenever a text contains a keyword of the critical tier (\<open>call_911\<close>) as a
  substring, in any letter case (a part \<open>w\<close> of the text with \<open>lower w = kw\<close>) and
  with any text \<open>pre\<close> before and \<open>post\<close> after it, \<open>check_emergency\<close> of
  \<open>full_symptom_checker_app.py\<close> returns the emergency verdict of level critical.
  Nothing is assumed of \<open>pre\<close> and \<open>post\<close>, which may hold keywords of the urgent tier:
  the critical tier is scanned first.
\<close>

theorem critical_keyword_gives_critical:
  assumes "kw \<in> set call_911_keywords" and "lower w = kw"
  shows "fsc_check_emergency (pre @ w @ post) =
           \<lparr>is_emergency = True, level = Critical, message = Some Call_911_message\<rparr>"
proof -
  have "sublist kw (lower (pre @ w @ post))"
    using assms(2) by (auto simp: sublist_lower_iff)
  with assms(1) obtain y
    where "find (\<lambda>keyword. sublist keyword (lower (pre @ w @ post))) call_911_keywords = Some y"
    using find_is_Some by fastforce
  then show ?thesis by (simp add: fsc_check_emergency_def)
qed

theorem critical_keyword_gives_critical_witness:
  "fsc_check_emergency ''I have a high fever and CHEST Pain today'' =
     \<lparr>is_emergency = True, level = Critical, message = Some Call_911_message\<rparr>"
proof -
  have a: "''chest pain'' \<in> set call_911_keywords" by (simp add: call_911_keywords_def)
  have b: "lower ''CHEST Pain'' = ''chest pain''" by code_simp
  show ?thesis
    using critical_keyword_gives_critical [OF a b, of "''I have a high fever and ''" "'' today''"]
    by simp
qed

text \<open>
  Claim C7. \<open>check_emergency\<close> of \<open>full_symptom_checker_app.py\<close> reads its argument and
  the constant keyword table only, so it is a function of the text. For a text that
  contains no keyword of either tier in any letter case, and so for the empty text and
  for a text of whitespace only, it returns the verdict that is no emergency, of the
  level \<open>routine\<close> (the tier the specification calls none) and without a message; two
  calls on the same text return the same verdict.
\<close>

theorem no_keyword_gives_routine:
  "((\<forall>kw \<in> set (call_911_keywords @ urgent_care_keywords).
        \<not> (\<exists>pre w post. text = pre @ w @ post \<and> lower w = kw))
     \<longrightarrow> fsc_check_emergency text =
           \<lparr>is_emergency = False, level = Routine, message = None\<rparr>)
   \<and> ((\<forall>c \<in> set text. isspace c)
     \<longrightarrow> fsc_check_emergency text =
           \<lparr>is_emergency = False, level = Routine, message = None\<rparr>)
   \<and> fsc_check_emergency [] = \<lparr>is_emergency = False, level = Routine, message = None\<rparr>
   \<and> (text = text' \<longrightarrow> fsc_check_emergency text = fsc_check_emergency text')"
proof (intro conjI impI)
  assume "\<forall>kw \<in> set (call_911_keywords @ urgent_care_keywords).
            \<not> (\<exists>pre w post. text = pre @ w @ post \<and> lower w = kw)"
  then have "\<forall>kw \<in> set (call_911_keywords @ urgent_care_keywords). \<not> sublist kw (lower text)"
    by (simp only: sublist_lower_iff)
  then show "fsc_check_emergency text = \<lparr>is_emergency = False, level = Routine, message = None\<rparr>"
    by (rule no_keyword_routine)
next
  assume "\<forall>c \<in> set text. isspace c"
  then show "fsc_check_emergency text = \<lparr>is_emergency = False, level = Routine, message = None\<rparr>"
    using whitespace_has_no_keyword no_keyword_routine by blast
next
  have "\<forall>c \<in> set ([] :: string). isspace c" by simp
  then show "fsc_check_emergency [] = \<lparr>is_emergency = False, level = Routine, message = None\<rparr>"
    using whitespace_has_no_keyword no_keyword_routine by blast
next
  assume "text = text'"
  then show "fsc_check_emergency text = fsc_check_emergency text'" by simp
qed

theorem no_keyword_gives_routine_witness:
  "fsc_check_emergency ''   '' = \<lparr>is_emergency = False, level = Routine, message = None\<rparr>"
proof -
  have a: "\<forall>c \<in> set ''   ''. isspace c" by (simp add: isspace_def)
  show ?thesis using a no_keyword_gives_routine [of "''   ''" "''   ''"] by blast
qed

section \<open>Facts about the chat history\<close>

lemma last_slice_length: "length (last_slice n xs) \<le> n"
  by (simp add: last_slice_def)

lemma last_slice_absorb: "last_slice n (last_slice n xs @ ys) = last_slice n (xs @ ys)"
proof (cases "length xs \<le> n")
  case True then show ?thesis by (simp add: last_slice_def)
next
  case False
  then have "length xs - n + n = length xs" by simp
  with False show ?thesis by (simp add: last_slice_def add.commute)
qed

lemma history_update:
  "history (update_chat_history s u b) = last_slice 20 (history s @ turns_of (u, b))"
  by (simp add: update_chat_history_def history_def turns_of_def Let_def split: option.split)

lemma history_exchanges:
  "xs \<noteq> [] \<Longrightarrow> history (exchanges s xs) = last_slice 20 (history s @ concat (map turns_of xs))"
proof (induction xs arbitrary: s)
  case Nil then show ?case by simp
next
  case (Cons x xs)
  obtain u b where x: "x = (u, b)" by (cases x)
  show ?case
  proof (cases "xs = []")
    case True then show ?thesis by (simp add: x history_update)
  next
    case False
    then have "history (exchanges (update_chat_history s u b) xs)
        = last_slice 20 (history (update_chat_history s u b) @ concat (map turns_of xs))"
      by (rule Cons.IH)
    then show ?thesis by (simp add: x history_update last_slice_absorb)
  qed
qed

lemma length_strip: "length (strip s) \<le> length s"
proof -
  have "length (dropWhile isspace (rev (dropWhile isspace s))) \<le> length (rev (dropWhile isspace s))"
    by (rule length_dropWhile_le)
  also have "\<dots> \<le> length s" by (simp add: length_dropWhile_le)
  finally show ?thesis by (simp add: strip_def)
qed

lemma strip_id: "\<forall>c \<in> set s. \<not> isspace c \<Longrightarrow> strip s = s"
proof -
  assume a: "\<forall>c \<in> set s. \<not> isspace c"
  have d: "dropWhile isspace xs = xs" if "\<forall>c \<in> set xs. \<not> isspace c" for xs
    using that by (cases xs) auto
  from a have "dropWhile isspace s = s" by (rule d)
  moreover from a have "dropWhile isspace (rev s) = rev s" by (intro d) simp
  ultimately show ?thesis by (simp add: strip_def)
qed



lemma length_turns: "length (concat (map turns_of xs)) = 2 * length xs"
  by (induction xs) (simp_all add: turns_of_def)

lemma suffix_last_slice: "suffix (last_slice n xs) xs"
  by (simp add: last_slice_def suffix_drop)

lemma last_slice_keeps_end: "length ys \<le> n \<Longrightarrow> suffix ys (last_slice n (xs @ ys))"
  by (simp add: last_slice_def suffix_def)

section \<open>The chat history\<close>

text \<open>
  Claim C8. After every exchange the stored history has at most 20 turns: it is the
  last 20 turns of the history before, followed by the user turn and the assistant turn
  of the exchange, in that order (so it is a suffix of that list and ends with the two
  new turns). After any run of exchanges it is the last 20 turns of everything said, and
  after 11 exchanges on a fresh session (22 turns) the oldest 2 are gone.
\<close>

theorem history_keeps_last_20:
  "length (history (update_chat_history s u b)) \<le> 20
   \<and> history (update_chat_history s u b) = last_slice 20 (history s @ turns_of (u, b))
   \<and> suffix (history (update_chat_history s u b)) (history s @ turns_of (u, b))
   \<and> suffix (turns_of (u, b)) (history (update_chat_history s u b))
   \<and> (xs \<noteq> [] \<longrightarrow>
        history (exchanges s xs) = last_slice 20 (history s @ concat (map turns_of xs)))
   \<and> (length xs = 11 \<longrightarrow> messages s = None \<longrightarrow>
        history (exchanges s xs) = drop 2 (concat (map turns_of xs)))"
proof (intro conjI impI)
  show "length (history (update_chat_history s u b)) \<le> 20"
    by (simp add: history_update last_slice_length)
  show "history (update_chat_history s u b) = last_slice 20 (history s @ turns_of (u, b))"
    by (rule history_update)
  show "suffix (history (update_chat_history s u b)) (history s @ turns_of (u, b))"
    by (simp add: history_update suffix_last_slice)
  show "suffix (turns_of (u, b)) (history (update_chat_history s u b))"
    by (simp add: history_update last_slice_keeps_end turns_of_def)
next
  assume "xs \<noteq> []"
  then show "history (exchanges s xs) = last_slice 20 (history s @ concat (map turns_of xs))"
    by (rule history_exchanges)
next
  assume l: "length xs = 11" and n: "messages s = None"
  from l have "xs \<noteq> []" by auto
  then have "history (exchanges s xs) = last_slice 20 (history s @ concat (map turns_of xs))"
    by (rule history_exchanges)
  with l n show "history (exchanges s xs) = drop 2 (concat (map turns_of xs))"
    by (simp add: history_def last_slice_def length_turns)
qed

theorem history_keeps_last_20_witness:
  "history (exchanges \<lparr>messages = None, assessment = None\<rparr>
     [(''q1'', ''a1''), (''q2'', ''a2''), (''q3'', ''a3''), (''q4'', ''a4''), (''q5'', ''a5''), (''q6'', ''a6''), (''q7'', ''a7''), (''q8'', ''a8''), (''q9'', ''a9''), (''q10'', ''a10''), (''q11'', ''a11'')]) =
     [\<lparr>role = ''user'', content = ''q2''\<rparr>, \<lparr>role = ''assistant'', content = ''a2''\<rparr>,
      \<lparr>role = ''user'', content = ''q3''\<rparr>, \<lparr>role = ''assistant'', content = ''a3''\<rparr>,
      \<lparr>role = ''user'', content = ''q4''\<rparr>, \<lparr>role = ''assistant'', content = ''a4''\<rparr>,
      \<lparr>role = ''user'', content = ''q5''\<rparr>, \<lparr>role = ''assistant'', content = ''a5''\<rparr>,
      \<lparr>role = ''user'', content = ''q6''\<rparr>, \<lparr>role = ''assistant'', content = ''a6''\<rparr>,
      \<lparr>role = ''user'', content = ''q7''\<rparr>, \<lparr>role = ''assistant'', content = ''a7''\<rparr>,
      \<lparr>role = ''user'', content = ''q8''\<rparr>, \<lparr>role = ''assistant'', content = ''a8''\<rparr>,
      \<lparr>role = ''user'', content = ''q9''\<rparr>, \<lparr>role = ''assistant'', content = ''a9''\<rparr>,
      \<lparr>role = ''user'', content = ''q10''\<rparr>, \<lparr>role = ''assistant'', content = ''a10''\<rparr>,
      \<lparr>role = ''user'', content = ''q11''\<rparr>, \<lparr>role = ''assistant'', content = ''a11''\<rparr>]"
proof -
  let ?s = "\<lparr>messages = None, assessment = None\<rparr>"
  let ?xs = "[(''q1'', ''a1''), (''q2'', ''a2''), (''q3'', ''a3''), (''q4'', ''a4''), (''q5'', ''a5''), (''q6'', ''a6''), (''q7'', ''a7''), (''q8'', ''a8''), (''q9'', ''a9''), (''q10'', ''a10''), (''q11'', ''a11'')]"
  let ?ts = "[\<lparr>role = ''user'', content = ''q2''\<rparr>, \<lparr>role = ''assistant'', content = ''a2''\<rparr>,
      \<lparr>role = ''user'', content = ''q3''\<rparr>, \<lparr>role = ''assistant'', content = ''a3''\<rparr>,
      \<lparr>role = ''user'', content = ''q4''\<rparr>, \<lparr>role = ''assistant'', content = ''a4''\<rparr>,
      \<lparr>role = ''user'', content = ''q5''\<rparr>, \<lparr>role = ''assistant'', content = ''a5''\<rparr>,
      \<lparr>role = ''user'', content = ''q6''\<rparr>, \<lparr>role = ''assistant'', content = ''a6''\<rparr>,
      \<lparr>role = ''user'', content = ''q7''\<rparr>, \<lparr>role = ''assistant'', content = ''a7''\<rparr>,
      \<lparr>role = ''user'', content = ''q8''\<rparr>, \<lparr>role = ''assistant'', content = ''a8''\<rparr>,
      \<lparr>role = ''user'', content = ''q9''\<rparr>, \<lparr>role = ''assistant'', content = ''a9''\<rparr>,
      \<lparr>role = ''user'', content = ''q10''\<rparr>, \<lparr>role = ''assistant'', content = ''a10''\<rparr>,
      \<lparr>role = ''user'', content = ''q11''\<rparr>, \<lparr>role = ''assistant'', content = ''a11''\<rparr>]"
  have l: "length ?xs = 11" by simp
  have n: "messages ?s = None" by simp
  have "history (exchanges ?s ?xs) = drop 2 (concat (map turns_of ?xs))"
    using l n history_keeps_last_20 [of ?s "[]" "[]" ?xs] by blast
  moreover have "drop 2 (concat (map turns_of ?xs)) = ?ts" by (simp add: turns_of_def)
  ultimately show ?thesis by (rule trans)
qed

section \<open>Message validation\<close>

text \<open>
  Claim C9. \<open>validate_message\<close> accepts a message exactly when it is not empty, not
  longer than 1000 characters and not shorter than 2 characters after trimming. The
  empty string, every string of 1001 characters and every string of one character are
  rejected, each with its error text; a string of two characters that are not
  whitespace is accepted. The handler \<open>chat\<close> trims the form value, and answers a
  rejected message with status 400 and that error text, leaving the session as it was.
\<close>

theorem validate_message_rejects:
  "(fst (validate_message msg) \<longleftrightarrow>
      \<not> (msg = [] \<or> length msg > 1000 \<or> length (strip msg) < 2))
   \<and> validate_message [] = (False, Some ''Message cannot be empty'')
   \<and> (length msg = 1001 \<longrightarrow>
        validate_message msg = (False, Some ''Message too long (max 1000 characters)''))
   \<and> (length msg = 1 \<longrightarrow> validate_message msg = (False, Some ''Message too short''))
   \<and> (length msg = 2 \<longrightarrow> (\<forall>c \<in> set msg. \<not> isspace c) \<longrightarrow>
        validate_message msg = (True, None))
   \<and> (\<not> fst (validate_message (strip m)) \<longrightarrow>
        chat rag_chain s (Some m) = (s, Chat_error 400 (snd (validate_message (strip m)))))"
proof (intro conjI impI)
  show "fst (validate_message msg) \<longleftrightarrow>
      \<not> (msg = [] \<or> length msg > 1000 \<or> length (strip msg) < 2)"
    by (simp add: validate_message_def)
  show "validate_message [] = (False, Some ''Message cannot be empty'')"
    by (simp add: validate_message_def)
next
  assume "length msg = 1001"
  then show "validate_message msg = (False, Some ''Message too long (max 1000 characters)'')"
    by (auto simp: validate_message_def)
next
  assume l: "length msg = 1"
  have "length (strip msg) \<le> length msg" by (rule length_strip)
  with l show "validate_message msg = (False, Some ''Message too short'')"
    by (auto simp: validate_message_def)
next
  assume "length msg = 2" and "\<forall>c \<in> set msg. \<not> isspace c"
  then show "validate_message msg = (True, None)"
    by (auto simp: validate_message_def strip_id)
next
  assume "\<not> fst (validate_message (strip m))"
  then show "chat rag_chain s (Some m) = (s, Chat_error 400 (snd (validate_message (strip m))))"
    by (cases "validate_message (strip m)") (simp add: chat_def)
qed

theorem validate_message_rejects_witness:
  "validate_message ''hi'' = (True, None)
   \<and> validate_message ''x'' = (False, Some ''Message too short'')
   \<and> chat (\<lambda>msg chat_history. None) fresh_session (Some '' x '')
       = (fresh_session, Chat_error 400 (Some ''Message too short''))"
proof -
  have a: "length ''hi'' = 2" "\<forall>c \<in> set ''hi''. \<not> isspace c" by (simp_all add: isspace_def)
  have b: "length ''x'' = 1" by simp
  have c: "strip '' x '' = ''x''" by (simp add: strip_def isspace_def)
  have d: "validate_message ''x'' = (False, Some ''Message too short'')"
    using b validate_message_rejects [of "''x''"] by blast
  have e: "validate_message ''hi'' = (True, None)"
    using a validate_message_rejects [of "''hi''"] by blast
  show ?thesis
    using d e c
      validate_message_rejects [of "''x''" "'' x ''" "\<lambda>msg chat_history. None" fresh_session]
    by simp
qed

section \<open>Facts about the assessment\<close>

lemma length_questions: "length ASSESSMENT_QUESTIONS = 7"
  by (simp add: ASSESSMENT_QUESTIONS_def)

lemma submit_store:
  assumes "question_id d = Some qn" "qn \<noteq> []" "\<not> triggers_emergency d" "assessment s = Some a"
  shows "submit_answer s (Object d) =
    (s\<lparr>assessment := Some (a\<lparr>answers := (answers a)(qn \<mapsto> answer d),
                               current_question := Suc (current_question a)\<rparr>)\<rparr>,
     if 7 \<le> Suc (current_question a) then Complete ((answers a)(qn \<mapsto> answer d))
     else Continue (ASSESSMENT_QUESTIONS ! Suc (current_question a))
            (Suc (Suc (current_question a))) 7)"
  using assms
  by (auto simp: submit_answer_def triggers_emergency_def length_questions Let_def
           split: prod.split)

lemma submit_store_fresh:
  assumes "question_id d = Some qn" "qn \<noteq> []" "\<not> triggers_emergency d" "assessment s = None"
  shows "submit_answer s (Object d) =
    (s\<lparr>assessment := Some (initial_assessment\<lparr>answers := [qn \<mapsto> answer d],
                               current_question := 1\<rparr>)\<rparr>,
     Continue (ASSESSMENT_QUESTIONS ! 1) 2 7)"
  using assms
  by (auto simp: submit_answer_def triggers_emergency_def length_questions Let_def
           initial_assessment_def split: prod.split)

lemma submit_emergency:
  assumes "question_id d = Some qn" "triggers_emergency d"
  shows "submit_answer s (Object d) =
    (s\<lparr>assessment := Some (case assessment s of None \<Rightarrow> initial_assessment | Some a \<Rightarrow> a)\<rparr>,
     Emergency (snd (check_emergency (py_str (answer d)))))"
  using assms
  by (auto simp: submit_answer_def triggers_emergency_def Let_def split: prod.split)

lemma check_emergency_keyword:
  assumes "kw \<in> set EMERGENCY_KEYWORDS" "lower w = kw"
  shows "\<exists>k \<in> set EMERGENCY_KEYWORDS. check_emergency (pre @ w @ post) = (True, Some k)"
proof -
  have "sublist kw (lower (pre @ w @ post))"
    using assms(2) by (auto simp: sublist_lower_iff)
  with assms(1) obtain y
    where y: "find (\<lambda>keyword. sublist keyword (lower (pre @ w @ post))) EMERGENCY_KEYWORDS = Some y"
    using find_is_Some by fastforce
  then have "y \<in> set EMERGENCY_KEYWORDS" by (auto simp: find_Some_iff)
  with y show ?thesis by (simp add: check_emergency_def)
qed


lemma keyword_nonempty: "kw \<in> set EMERGENCY_KEYWORDS \<Longrightarrow> kw \<noteq> []"
  by (auto simp: EMERGENCY_KEYWORDS_def)

lemma fsc_keyword_emergency:
  assumes "kw \<in> set (call_911_keywords @ urgent_care_keywords)" "lower w = kw"
  shows "is_emergency (fsc_check_emergency (pre @ w @ post))"
proof -
  have sub: "sublist kw (lower (pre @ w @ post))"
    using assms(2) by (auto simp: sublist_lower_iff)
  show ?thesis
  proof (cases "find (\<lambda>keyword. sublist keyword (lower (pre @ w @ post))) call_911_keywords")
    case (Some y)
    then show ?thesis by (simp add: fsc_check_emergency_def)
  next
    case None
    with sub assms(1) have "kw \<in> set urgent_care_keywords" by (auto simp: find_None_iff)
    with sub obtain y
      where "find (\<lambda>keyword. sublist keyword (lower (pre @ w @ post))) urgent_care_keywords = Some y"
      using find_is_Some by fastforce
    with None show ?thesis by (simp add: fsc_check_emergency_def)
  qed
qed

section \<open>Emergency answers\<close>

text \<open>
  Claim C2. On a session with an assessment in progress, a \<open>main_symptom\<close> answer whose
  text contains an emergency keyword of \<open>app.py\<close> in any letter case is answered with
  the status \<open>emergency\<close> and a keyword of the list, and the session is returned as it
  was: the answer is not stored and the cursor does not move. \<open>submit_answer\<close> of
  \<open>full_symptom_checker_app.py\<close> does the same for any string answer holding a keyword
  of either tier of its table.
\<close>

theorem emergency_answer_keeps_state:
  assumes "lower w = kw"
  shows "(kw \<in> set EMERGENCY_KEYWORDS \<longrightarrow> assessment s = Some a \<longrightarrow>
           (\<exists>k \<in> set EMERGENCY_KEYWORDS.
              submit_answer s
                (Object \<lparr>question_id = Some ''main_symptom'', answer = AStr (pre @ w @ post)\<rparr>)
              = (s, Emergency (Some k))))
       \<and> (kw \<in> set (call_911_keywords @ urgent_care_keywords) \<longrightarrow>
           (\<exists>v. fsc_submit_answer fs (Object \<lparr>question_id = q, answer = AStr (pre @ w @ post)\<rparr>)
                  = (fs, Fsc_emergency v) \<and> is_emergency v))"
proof (intro conjI impI)
  assume k: "kw \<in> set EMERGENCY_KEYWORDS" and a: "assessment s = Some a"
  let ?d = "\<lparr>question_id = Some ''main_symptom'', answer = AStr (pre @ w @ post)\<rparr>"
  from k assms obtain k' where k': "k' \<in> set EMERGENCY_KEYWORDS"
    and c: "check_emergency (pre @ w @ post) = (True, Some k')"
    using check_emergency_keyword by blast
  from k assms have "w \<noteq> []" using keyword_nonempty by (auto simp: lower_def)
  with c have "triggers_emergency ?d" by (simp add: triggers_emergency_def)
  then have "submit_answer s (Object ?d) = (s, Emergency (Some k'))"
    using a c submit_emergency [of ?d "''main_symptom''" s] by simp
  with k' show "\<exists>k \<in> set EMERGENCY_KEYWORDS. submit_answer s (Object ?d) = (s, Emergency (Some k))"
    by blast
next
  assume "kw \<in> set (call_911_keywords @ urgent_care_keywords)"
  with assms have "is_emergency (fsc_check_emergency (pre @ w @ post))"
    by (rule_tac fsc_keyword_emergency) auto
  then show "\<exists>v. fsc_submit_answer fs (Object \<lparr>question_id = q, answer = AStr (pre @ w @ post)\<rparr>)
                  = (fs, Fsc_emergency v) \<and> is_emergency v"
    by (simp add: fsc_submit_answer_def Let_def)
qed

theorem emergency_answer_keeps_state_witness:
  "submit_answer (fst (start_assessment fresh_session))
     (Object \<lparr>question_id = Some ''main_symptom'', answer = AStr ''thoughts of Suicide''\<rparr>)
   = (fst (start_assessment fresh_session), Emergency (Some ''suicide''))"
proof -
  let ?s = "fst (start_assessment fresh_session)"
  have l: "lower ''Suicide'' = ''suicide''" by code_simp
  have k: "''suicide'' \<in> set EMERGENCY_KEYWORDS" by (simp add: EMERGENCY_KEYWORDS_def)
  have a: "assessment ?s = Some initial_assessment" by (simp add: start_assessment_def)
  from emergency_answer_keeps_state [OF l, of ?s initial_assessment "''thoughts of ''" "[]"] k a
  obtain k' where "submit_answer ?s
     (Object \<lparr>question_id = Some ''main_symptom'', answer = AStr ''thoughts of Suicide''\<rparr>)
     = (?s, Emergency (Some k'))" by auto
  moreover have "snd (check_emergency ''thoughts of Suicide'') = Some ''suicide''" by code_simp
  moreover have "triggers_emergency \<lparr>question_id = Some ''main_symptom'', answer = AStr ''thoughts of Suicide''\<rparr>"
    by code_simp
  ultimately show ?thesis
    using submit_emergency [of "\<lparr>question_id = Some ''main_symptom'', answer = AStr ''thoughts of Suicide''\<rparr>" "''main_symptom''" ?s]
    by simp
qed

section \<open>Facts about submissions\<close>





section \<open>What \<open>submit_answer\<close> validates\<close>



text \<open>
  Claim C10 as stated does not hold of every submission. On a session without an
  assessment, the \<open>main_symptom\<close> answer ``chest pain'' is answered with \<open>emergency\<close>:
  the fresh assessment is created, but nothing is stored and the cursor stays at 0.
\<close>

theorem fresh_emergency_counterexample:
  "snd (submit_answer fresh_session
          (Object \<lparr>question_id = Some ''main_symptom'', answer = AStr ''chest pain''\<rparr>))
     = Emergency (Some ''chest pain'')
   \<and> stored (fst (submit_answer fresh_session
          (Object \<lparr>question_id = Some ''main_symptom'', answer = AStr ''chest pain''\<rparr>)))
        ''main_symptom'' = None
   \<and> cursor_of (fst (submit_answer fresh_session
          (Object \<lparr>question_id = Some ''main_symptom'', answer = AStr ''chest pain''\<rparr>))) = Some 0
   \<and> assessment fresh_session = None"
proof -
  let ?d = "\<lparr>question_id = Some ''main_symptom'', answer = AStr ''chest pain''\<rparr>"
  have t: "triggers_emergency ?d" by code_simp
  have k: "snd (check_emergency ''chest pain'') = Some ''chest pain''" by code_simp
  have "submit_answer fresh_session (Object ?d) =
    (fresh_session\<lparr>assessment := Some (case assessment fresh_session of
                                          None \<Rightarrow> initial_assessment | Some a \<Rightarrow> a)\<rparr>,
     Emergency (snd (check_emergency (py_str (answer ?d)))))"
    using submit_emergency [OF _ t, of "''main_symptom''" fresh_session] by simp
  with k show ?thesis
    by (simp add: stored_def cursor_of_def fresh_session_def initial_assessment_def)
qed






text \<open>
  Claim C10, amended. On a session without an assessment, a submission with a
  non-empty \<open>question_id\<close> does not fail. Unless it raises the emergency reply, the
  session then holds a fresh assessment with just this answer under the
  \<open>question_id\<close> supplied and the cursor at 1, and the reply is \<open>continue\<close> with the
  second question. When it raises the emergency reply, the session holds the fresh
  assessment with no answer and the cursor at 0.
\<close>

theorem submit_without_assessment:
  assumes "assessment s = None" and "question_id d = Some qn" and "qn \<noteq> []"
  shows "(\<not> triggers_emergency d \<longrightarrow>
            submit_answer s (Object d) =
              (s\<lparr>assessment := Some \<lparr>answers = [qn \<mapsto> answer d], current_question = 1,
                                       started = True\<rparr>\<rparr>,
               Continue (ASSESSMENT_QUESTIONS ! 1) 2 7))
       \<and> (triggers_emergency d \<longrightarrow>
            submit_answer s (Object d) =
              (s\<lparr>assessment := Some initial_assessment\<rparr>,
               Emergency (snd (check_emergency (py_str (answer d))))))"
proof (intro conjI impI)
  assume "\<not> triggers_emergency d"
  then show "submit_answer s (Object d) =
              (s\<lparr>assessment := Some \<lparr>answers = [qn \<mapsto> answer d], current_question = 1,
                                       started = True\<rparr>\<rparr>,
               Continue (ASSESSMENT_QUESTIONS ! 1) 2 7)"
    using submit_store_fresh [OF assms(2,3) _ assms(1)] by (simp add: initial_assessment_def)
next
  assume "triggers_emergency d"
  then show "submit_answer s (Object d) =
              (s\<lparr>assessment := Some initial_assessment\<rparr>,
               Emergency (snd (check_emergency (py_str (answer d)))))"
    using submit_emergency [OF assms(2), of s] assms(1) by simp
qed

theorem submit_without_assessment_witness:
  "submit_answer fresh_session (Object \<lparr>question_id = Some ''age'', answer = ANum 34\<rparr>) =
     (fresh_session\<lparr>assessment := Some \<lparr>answers = [''age'' \<mapsto> ANum 34], current_question = 1,
                                          started = True\<rparr>\<rparr>,
      Continue (ASSESSMENT_QUESTIONS ! 1) 2 7)"
proof -
  let ?d = "\<lparr>question_id = Some ''age'', answer = ANum 34\<rparr>"
  have a: "assessment fresh_session = None" by (simp add: fresh_session_def)
  have q: "question_id ?d = Some ''age''" and e: "''age'' \<noteq> []" by simp_all
  have n: "\<not> triggers_emergency ?d" by (simp add: triggers_emergency_def)
  show ?thesis using n submit_without_assessment [OF a q e] by simp
qed

section \<open>A whole assessment\<close>

lemma submit_store_rec:
  assumes "qn \<noteq> []" "\<not> triggers_emergency \<lparr>question_id = Some qn, answer = v\<rparr>"
  shows "submit_answer (s\<lparr>assessment := Some a\<rparr>) (Object \<lparr>question_id = Some qn, answer = v\<rparr>) =
    (s\<lparr>assessment := Some (a\<lparr>answers := (answers a)(qn \<mapsto> v),
                               current_question := Suc (current_question a)\<rparr>)\<rparr>,
     if 7 \<le> Suc (current_question a) then Complete ((answers a)(qn \<mapsto> v))
     else Continue (ASSESSMENT_QUESTIONS ! Suc (current_question a))
            (Suc (Suc (current_question a))) 7)"
  using submit_store [of "\<lparr>question_id = Some qn, answer = v\<rparr>" qn "s\<lparr>assessment := Some a\<rparr>" a] assms
  by simp

lemma list7: "length vs = 7 \<Longrightarrow> \<exists>v1 v2 v3 v4 v5 v6 v7. vs = [v1, v2, v3, v4, v5, v6, v7]"
  by (auto simp: length_Suc_conv numeral_eq_Suc)

lemma not_main:
  "qn \<noteq> ''main_symptom'' \<Longrightarrow> \<not> triggers_emergency \<lparr>question_id = Some qn, answer = v\<rparr>"
  by (simp add: triggers_emergency_def)

text \<open>
  Claim C4. After \<open>start_assessment\<close>, submitting one answer for each of the seven
  questions with its own \<open>question_id\<close>, in the order of \<open>ASSESSMENT_QUESTIONS\<close>, the
  first answer not raising the emergency reply, gives \<open>continue\<close> with the next
  question for the first six submissions and \<open>complete\<close> exactly on the seventh. The
  answers returned with \<open>complete\<close> are the seven submitted values, each under the id
  of its question; the session holds the same answers and the cursor is 7.
\<close>

theorem all_questions_reach_complete:
  assumes "length vs = length ASSESSMENT_QUESTIONS"
    and "\<not> triggers_emergency \<lparr>question_id = Some ''main_symptom'', answer = hd vs\<rparr>"
  shows "\<exists>s' m. submit_all (fst (start_assessment s))
            (map2 (\<lambda>q v. \<lparr>question_id = Some (qid q), answer = v\<rparr>) ASSESSMENT_QUESTIONS vs)
          = (s', [Continue (ASSESSMENT_QUESTIONS ! 1) 2 7, Continue (ASSESSMENT_QUESTIONS ! 2) 3 7,
                  Continue (ASSESSMENT_QUESTIONS ! 3) 4 7, Continue (ASSESSMENT_QUESTIONS ! 4) 5 7,
                  Continue (ASSESSMENT_QUESTIONS ! 5) 6 7, Continue (ASSESSMENT_QUESTIONS ! 6) 7 7,
                  Complete m])
        \<and> (\<forall>k. m k = map_of (zip (map qid ASSESSMENT_QUESTIONS) vs) k)
        \<and> (\<forall>k. stored s' k = m k) \<and> cursor_of s' = Some 7"
proof -
  from assms(1) have "length vs = 7" by (simp add: ASSESSMENT_QUESTIONS_def)
  then obtain v1 v2 v3 v4 v5 v6 v7 where vs: "vs = [v1, v2, v3, v4, v5, v6, v7]"
    using list7 by blast
  with assms(2) have n: "\<not> triggers_emergency \<lparr>question_id = Some ''main_symptom'', answer = v1\<rparr>"
    by simp
  show ?thesis
    unfolding vs
    by (simp add: ASSESSMENT_QUESTIONS_def start_assessment_def initial_assessment_def
                  submit_store_rec n not_main stored_def cursor_of_def)
qed

theorem all_questions_reach_complete_witness:
  "\<exists>s' m. submit_all (fst (start_assessment fresh_session))
            (map2 (\<lambda>q v. \<lparr>question_id = Some (qid q), answer = v\<rparr>) ASSESSMENT_QUESTIONS
               [AStr ''fever'', AStr ''1-3 days ago'', ANum 6, AList [''Cough''], ANum 34,
                AStr ''None'', AStr ''None''])
          = (s', [Continue (ASSESSMENT_QUESTIONS ! 1) 2 7, Continue (ASSESSMENT_QUESTIONS ! 2) 3 7,
                  Continue (ASSESSMENT_QUESTIONS ! 3) 4 7, Continue (ASSESSMENT_QUESTIONS ! 4) 5 7,
                  Continue (ASSESSMENT_QUESTIONS ! 5) 6 7, Continue (ASSESSMENT_QUESTIONS ! 6) 7 7,
                  Complete m])
        \<and> (\<forall>k. m k = map_of (zip (map qid ASSESSMENT_QUESTIONS)
               [AStr ''fever'', AStr ''1-3 days ago'', ANum 6, AList [''Cough''], ANum 34,
                AStr ''None'', AStr ''None'']) k)
        \<and> (\<forall>k. stored s' k = m k) \<and> cursor_of s' = Some 7"
proof -
  let ?vs = "[AStr ''fever'', AStr ''1-3 days ago'', ANum 6, AList [''Cough''], ANum 34,
              AStr ''None'', AStr ''None'']"
  have l: "length ?vs = length ASSESSMENT_QUESTIONS" by (simp add: ASSESSMENT_QUESTIONS_def)
  have "\<not> triggers_emergency \<lparr>question_id = Some ''main_symptom'', answer = AStr ''fever''\<rparr>"
    by code_simp
  then have n: "\<not> triggers_emergency \<lparr>question_id = Some ''main_symptom'', answer = hd ?vs\<rparr>"
    by simp
  show ?thesis by (rule all_questions_reach_complete [OF l n])
qed

section \<open>The patient summary\<close>

lemma summary_lines_parts:
  "summary_lines ans =
     (case ans ''age'' of None \<Rightarrow> [] | Some v \<Rightarrow> [''Age: '' @ py_str v])
   @ (case ans ''main_symptom'' of None \<Rightarrow> [] | Some v \<Rightarrow> [''Main Symptom: '' @ py_str v])
   @ (case ans ''duration'' of None \<Rightarrow> [] | Some v \<Rightarrow> [''Duration: '' @ py_str v])
   @ (case ans ''severity'' of None \<Rightarrow> [] | Some v \<Rightarrow> [''Severity: '' @ py_str v @ ''/10''])
   @ (case ans ''additional_symptoms'' of None \<Rightarrow> []
      | Some v \<Rightarrow> if \<not> truthy v then []
                  else [''Additional Symptoms: ''
                          @ (case v of AList xs \<Rightarrow> join '', '' xs | _ \<Rightarrow> py_str v)])
   @ (case ans ''chronic_conditions'' of None \<Rightarrow> []
      | Some v \<Rightarrow> if \<not> truthy v then [] else [''Chronic Conditions: '' @ py_str v])
   @ (case ans ''medications'' of None \<Rightarrow> []
      | Some v \<Rightarrow> if \<not> truthy v then [] else [''Current Medications: '' @ py_str v])"
  by (simp add: summary_lines_def summary_order_def summary_line_def optional_field_def
           cong: option.case_cong if_cong)

lemma case_append:
  "(case x of None \<Rightarrow> prev | Some v \<Rightarrow> prev @ g v)
     = prev @ (case x of None \<Rightarrow> [] | Some v \<Rightarrow> g v)"
  by (cases x) simp_all

lemma case_if_append:
  "(case x of None \<Rightarrow> prev | Some v \<Rightarrow> if c v then prev @ g v else prev)
     = prev @ (case x of None \<Rightarrow> [] | Some v \<Rightarrow> if \<not> c v then [] else g v)"
  by (cases x) simp_all

lemma case_additional:
  "(case x of None \<Rightarrow> prev
    | Some v \<Rightarrow> if truthy v
                then (case v of AList xs \<Rightarrow> prev @ [p @ join sep xs] | _ \<Rightarrow> prev @ [p @ py_str v])
                else prev)
     = prev @ (case x of None \<Rightarrow> []
               | Some v \<Rightarrow> if \<not> truthy v then []
                           else [p @ (case v of AList xs \<Rightarrow> join sep xs | _ \<Rightarrow> py_str v)])"
  by (cases x) (simp_all split: answer.split)

text \<open>
  Claim C5, as the specification words it, fails: a mapping that holds
  \<open>main_symptom\<close> with the empty string still gets the line \<open>Main Symptom: \<close>, where
  the specification omits every empty field and so gives the empty summary.
\<close>

theorem summary_counterexample:
  "format_patient_info empty_symptom_answers = ''Main Symptom: ''
   \<and> summary_spec empty_symptom_answers = []"
  by (simp add: format_patient_info_def summary_spec_def empty_symptom_answers_def
                summary_order_def is_empty_def)

text \<open>
  Claim C5, amended. For every answers mapping the summary is the lines of
  \<open>summary_lines\<close> joined by newlines: the fields in the fixed order age, main symptom,
  duration, severity, additional symptoms (comma-joined when a list), chronic
  conditions, medications; age, main symptom, duration and severity have a line
  whenever the key is present, whatever the value; the last three have a line only
  when the key is present and the value is truthy. The summary is a function of the
  mapping alone, so equal inputs give equal output.
\<close>

theorem format_patient_info_lines:
  "format_patient_info ans = join [CHR 0x0A] (summary_lines ans)"
  unfolding format_patient_info_def
  apply (subst Let_def, (simp only: case_append case_if_append case_additional)?)+
  apply (simp only: summary_lines_parts append_Nil append_assoc)
  done

theorem format_patient_info_lines_witness:
  "format_patient_info example_answers =
     ''Age: 34'' @ [CHR 0x0A] @ ''Main Symptom: fever'' @ [CHR 0x0A] @ ''Severity: 6/10''"
proof -
  have "join [CHR 0x0A] (summary_lines example_answers) =
     ''Age: 34'' @ [CHR 0x0A] @ ''Main Symptom: fever'' @ [CHR 0x0A] @ ''Severity: 6/10''"
    by code_simp
  then show ?thesis using format_patient_info_lines [of example_answers] by simp
qed

end
